theory Spec2Isabelle
  imports Main "HOL-Library.Word" "HOL-Library.Monad_Syntax"
begin

unbundle bit_operations_syntax

section \<open>Data model of krx62.c\<close>

text \<open>
  Machine types of the driver. The kernel's \<open>long\<close> is taken at its LP64 width; a C
  \<open>int\<close> used in arithmetic is a 32-bit word read with \<open>sint\<close>. Return codes, the
  \<open>size\<close> argument and the channel index are only compared or used as an index, so
  they are \<open>int\<close>. Pointers to objects of the HID and hwmon cores are opaque
  addresses, \<open>0\<close> being \<open>NULL\<close>.
\<close>

type_synonym u8 = "8 word"
type_synonym u16 = "16 word"
type_synonym u32 = "32 word"
type_synonym c_int = "32 word"
type_synonym long = "64 word"
type_synonym umode_t = "16 word"
type_synonym ptr = nat

definition KRX62_RPM_INPUTS :: nat where
  "KRX62_RPM_INPUTS = 2"

definition EINVAL :: int where
  "EINVAL = 22"

definition ENOMEM :: int where
  "ENOMEM = 12"

text \<open>\<open>struct krx62_device_data\<close>; \<open>fan_input\<close> is the array
  \<open>long fan_input[KRX62_RPM_INPUTS]\<close>.\<close>

record krx62_device_data =
  hid_dev :: ptr
  hwmon_dev :: ptr
  temp_input :: long
  fan_input :: "long list"

text \<open>\<open>enum hwmon_sensor_types\<close> of \<open>linux/hwmon.h\<close>.\<close>

datatype hwmon_sensor_types =
    hwmon_chip | hwmon_temp | hwmon_in | hwmon_curr | hwmon_power
  | hwmon_energy | hwmon_humidity | hwmon_fan | hwmon_pwm | hwmon_max

text \<open>The field of \<open>struct hid_report\<close> that the driver looks at (an \<open>unsigned int\<close>).\<close>

record hid_report =
  report_id :: nat

text \<open>
  A read of a C array at an index. Outside the array the C program has no defined
  behaviour; the model stops there with \<open>None\<close>.
\<close>

definition array_read :: "'a list \<Rightarrow> int \<Rightarrow> 'a option" where
  "array_read xs i = (if 0 \<le> i \<and> i < int (length xs) then Some (xs ! nat i) else None)"

section \<open>The hwmon callbacks\<close>

text \<open>\<open>krx62_is_visible\<close>; the C literal \<open>0444\<close> is octal.\<close>

definition krx62_is_visible :: "ptr \<Rightarrow> hwmon_sensor_types \<Rightarrow> u32 \<Rightarrow> int \<Rightarrow> umode_t" where
  "krx62_is_visible data type attr channel = 4 * 8 ^ 2 + 4 * 8 + 4"

text \<open>
  \<open>krx62_read\<close>. The last argument is the content of the cell \<open>*val\<close> at the call; the
  result is the return code, the content of \<open>*val\<close> at the return and the device data.
\<close>

definition krx62_read ::
  "krx62_device_data \<Rightarrow> hwmon_sensor_types \<Rightarrow> u32 \<Rightarrow> int \<Rightarrow> long
     \<Rightarrow> (int \<times> long \<times> krx62_device_data) option" where
  "krx62_read ldata type attr channel val =
     (case type of
        hwmon_temp \<Rightarrow> Some (0, temp_input ldata, ldata)
      | hwmon_fan \<Rightarrow>
          do { v \<leftarrow> array_read (fan_input ldata) channel; Some (0, v, ldata) }
      | _ \<Rightarrow> Some (- EINVAL, val, ldata))"

definition KRX62_TEMP_LABEL :: string where
  "KRX62_TEMP_LABEL = ''Coolant''"

definition krx62_fan_label :: "string list" where
  "krx62_fan_label = [''Fans'', ''Pump'']"

text \<open>\<open>krx62_read_string\<close>, with the cell \<open>*str\<close> passed and returned like \<open>*val\<close> above.\<close>

definition krx62_read_string ::
  "hwmon_sensor_types \<Rightarrow> u32 \<Rightarrow> int \<Rightarrow> string \<Rightarrow> (int \<times> string) option" where
  "krx62_read_string type attr channel str =
     (case type of
        hwmon_temp \<Rightarrow> Some (0, KRX62_TEMP_LABEL)
      | hwmon_fan \<Rightarrow> do { s \<leftarrow> array_read krx62_fan_label channel; Some (0, s) }
      | _ \<Rightarrow> Some (- EINVAL, str))"

section \<open>The channel table\<close>

text \<open>
  The attribute bits of \<open>linux/hwmon.h\<close> that the table uses. A configuration word is
  the set of its bits, \<open>|\<close> is union and the word \<open>0\<close> is the empty set.
\<close>

datatype hwmon_attr_bit = HWMON_T_INPUT | HWMON_T_LABEL | HWMON_F_INPUT | HWMON_F_LABEL

record hwmon_channel_info =
  sensor_type :: hwmon_sensor_types
  config :: "hwmon_attr_bit set list"

text \<open>The macro \<open>HWMON_CHANNEL_INFO\<close> of \<open>linux/hwmon.h\<close>: the configuration words
  of the channels, closed by a \<open>0\<close> word.\<close>

definition HWMON_CHANNEL_INFO ::
  "hwmon_sensor_types \<Rightarrow> hwmon_attr_bit set list \<Rightarrow> hwmon_channel_info" where
  "HWMON_CHANNEL_INFO t cfgs = \<lparr>sensor_type = t, config = cfgs @ [{}]\<rparr>"

definition krx62_info :: "hwmon_channel_info list" where
  "krx62_info =
     [HWMON_CHANNEL_INFO hwmon_temp [{HWMON_T_INPUT} \<union> {HWMON_T_LABEL}],
      HWMON_CHANNEL_INFO hwmon_fan
        [{HWMON_F_INPUT} \<union> {HWMON_F_LABEL}, {HWMON_F_INPUT} \<union> {HWMON_F_LABEL}]]"

text \<open>
  How the hwmon core enumerates a table: one channel for each configuration word before
  the closing \<open>0\<close>, numbered from 0 within its sensor type.
\<close>

definition channels_of :: "hwmon_channel_info \<Rightarrow> (hwmon_sensor_types \<times> int) list" where
  "channels_of ci =
     map (\<lambda>i. (sensor_type ci, int i)) [0 ..< length (takeWhile (\<lambda>c. c \<noteq> {}) (config ci))]"

definition list_channels :: "hwmon_channel_info list \<Rightarrow> (hwmon_sensor_types \<times> int) list" where
  "list_channels info = concat (map channels_of info)"

section \<open>The report decoder\<close>

definition STATUS_REPORT_ID :: nat where
  "STATUS_REPORT_ID = 4"

definition STATUS_MIN_BYTES :: int where
  "STATUS_MIN_BYTES = 16"

text \<open>\<open>be16_to_cpup\<close> of the kernel at \<open>data + off\<close>: the 16-bit value whose high byte
  comes first in memory.\<close>

definition be16_to_cpup :: "u8 list \<Rightarrow> int \<Rightarrow> u16 option" where
  "be16_to_cpup data off =
     do { hi \<leftarrow> array_read data off;
          lo \<leftarrow> array_read data (off + 1);
          Some (push_bit 8 (ucast hi) OR ucast lo) }"

text \<open>
  \<open>krx62_raw_event\<close>. \<open>ldata\<close> is the driver data of \<open>hdev\<close>; \<open>data\<close> is the memory
  behind the pointer and \<open>size'\<close> (the argument \<open>size\<close>) the length the HID core
  passes with it. The products
  are computed in \<open>int\<close> after integer promotion and converted to \<open>long\<close>; the two
  \<open>__be16\<close> values are converted to \<open>long\<close> unsigned.
\<close>

definition krx62_raw_event ::
  "krx62_device_data \<Rightarrow> hid_report \<Rightarrow> u8 list \<Rightarrow> int \<Rightarrow> (int \<times> krx62_device_data) option" where
  "krx62_raw_event ldata report data size' =
     (if report_id report \<noteq> STATUS_REPORT_ID \<or> size' < STATUS_MIN_BYTES then Some (0, ldata)
      else
        do { d1 \<leftarrow> array_read data 1;
             d2 \<leftarrow> array_read data 2;
             let l1 = ldata\<lparr>temp_input := scast ((ucast d1 * 1000 + ucast d2 * 100) :: c_int)\<rparr>;
             f0 \<leftarrow> be16_to_cpup data 3;
             let l2 = l1\<lparr>fan_input := (fan_input l1)[0 := ucast f0]\<rparr>;
             f1 \<leftarrow> be16_to_cpup data 5;
             let l3 = l2\<lparr>fan_input := (fan_input l2)[1 := ucast f1]\<rparr>;
             Some (0, l3) })"

text \<open>The HID core delivering a sequence of reports to the driver, one call each.\<close>

fun raw_events ::
  "krx62_device_data \<Rightarrow> (hid_report \<times> u8 list \<times> int) list \<Rightarrow> krx62_device_data option" where
  "raw_events ldata [] = Some ldata"
| "raw_events ldata ((report, data, size') # rs) =
     (case krx62_raw_event ldata report data size' of
        None \<Rightarrow> None
      | Some (ret, ldata') \<Rightarrow> raw_events ldata' rs)"

section \<open>Probing\<close>

text \<open>
  What the calls into the kernel return during \<open>krx62_probe\<close>: whether \<open>devm_kzalloc\<close>
  gave memory, the return codes of \<open>hid_parse\<close>, \<open>hid_hw_start\<close> and \<open>hid_hw_open\<close>, and
  the result of \<open>devm_hwmon_device_register_with_info\<close> (\<open>Inl e\<close> for \<open>ERR_PTR(e)\<close>).
\<close>

record probe_env =
  kzalloc_ok :: bool
  hid_parse_ret :: int
  hid_hw_start_ret :: int
  hid_hw_open_ret :: int
  hwmon_register_ret :: "int + ptr"

datatype hid_call = hid_hw_close | hid_hw_stop

text \<open>The zeroed object that \<open>devm_kzalloc\<close> returns.\<close>

definition kzalloc_device_data :: krx62_device_data where
  "kzalloc_device_data =
     \<lparr>hid_dev = 0, hwmon_dev = 0, temp_input = 0, fan_input = replicate KRX62_RPM_INPUTS 0\<rparr>"

text \<open>
  \<open>krx62_probe\<close>: the return code, the driver data as the function leaves it and the
  calls made on the recovery path.
\<close>

definition krx62_probe :: "ptr \<Rightarrow> probe_env \<Rightarrow> int \<times> krx62_device_data option \<times> hid_call list" where
  "krx62_probe hdev env =
     (if \<not> kzalloc_ok env then (- ENOMEM, None, [])
      else
        let ldata = kzalloc_device_data\<lparr>hid_dev := hdev\<rparr> in
        if hid_parse_ret env \<noteq> 0 then (hid_parse_ret env, Some ldata, [])
        else if hid_hw_start_ret env \<noteq> 0 then (hid_hw_start_ret env, Some ldata, [hid_hw_stop])
        else if hid_hw_open_ret env \<noteq> 0
          then (hid_hw_open_ret env, Some ldata, [hid_hw_close, hid_hw_stop])
        else
          (case hwmon_register_ret env of
             Inl e \<Rightarrow> (e, Some ldata, [hid_hw_close, hid_hw_stop])
           | Inr p \<Rightarrow> (0, Some (ldata\<lparr>hwmon_dev := p\<rparr>), [])))"

text \<open>A run of \<open>krx62_probe\<close> in which every call into the kernel succeeds.\<close>

definition probe_ok :: probe_env where
  "probe_ok = \<lparr>kzalloc_ok = True, hid_parse_ret = 0, hid_hw_start_ret = 0,
     hid_hw_open_ret = 0, hwmon_register_ret = Inr 1\<rparr>"

section \<open>Derived notions\<close>

text \<open>
  The device data after the three assignments of \<open>krx62_raw_event\<close>, written with the
  bytes of the buffer; \<open>krx62_raw_event_valid\<close> below shows that this is what the decoder
  returns for a status report.
\<close>

definition decoded :: "krx62_device_data \<Rightarrow> u8 list \<Rightarrow> krx62_device_data" where
  "decoded ldata data =
     ldata\<lparr>temp_input := scast ((ucast (data ! 1) * 1000 + ucast (data ! 2) * 100) :: c_int),
           fan_input := (fan_input ldata)
             [0 := ucast (push_bit 8 (ucast (data ! 3)) OR ucast (data ! 4) :: u16),
              1 := ucast (push_bit 8 (ucast (data ! 5)) OR ucast (data ! 6) :: u16)]\<rparr>"

text \<open>The range of the stored values: the temperature within \<open>0 .. 255 * 1000 + 255 * 100\<close>,
  two fan speeds, each within \<open>0 .. 65535\<close>.\<close>

definition value_bounds :: "krx62_device_data \<Rightarrow> bool" where
  "value_bounds ldata \<longleftrightarrow>
     0 \<le> sint (temp_input ldata) \<and> sint (temp_input ldata) \<le> 280500 \<and>
     length (fan_input ldata) = 2 \<and>
     (\<forall>f \<in> set (fan_input ldata). 0 \<le> sint f \<and> sint f \<le> 65535)"

section \<open>Arithmetic of the decoder\<close>

lemma u8_bound: "uint (b :: u8) < 256"
  using uint_lt2p [of b] by simp

text \<open>The \<open>int\<close> arithmetic of the temperature does not wrap, and the conversion to
  \<open>long\<close> keeps the value.\<close>

lemma temp_no_overflow:
  "sint (scast ((ucast (d1::u8) * 1000 + ucast (d2::u8) * 100) :: c_int) :: long)
     = uint d1 * 1000 + uint d2 * 100"
proof -
  define X where "X = uint d1 * 1000 + uint d2 * 100"
  have b1: "uint d1 < 256" and b2: "uint d2 < 256" by (rule u8_bound)+
  have n1: "0 \<le> uint d1" and n2: "0 \<le> uint d2" by simp_all
  have r: "0 \<le> X" "X < 2147483648" using b1 b2 n1 n2 by (simp_all add: X_def)
  have e: "(ucast d1 * 1000 + ucast d2 * 100 :: c_int) = word_of_int X"
    by (simp add: X_def)
  have s: "sint (word_of_int X :: c_int) = X"
    using r by (simp add: int_word_sint)
  have u: "sint (scast (w :: c_int) :: long) = sint w" for w
    by (simp add: sint_up_scast is_up)
  show ?thesis unfolding u e s by (simp add: X_def)
qed

text \<open>The two bytes of a big-endian value do not overlap, so the \<open>OR\<close> is a sum.\<close>

lemma be16_value:
  "uint (push_bit 8 (ucast (hi::u8)) OR ucast (lo::u8) :: u16) = uint hi * 256 + uint lo"
proof -
  define X where "X = uint hi * 256 + uint lo"
  have b1: "uint hi < 256" and b2: "uint lo < 256" by (rule u8_bound)+
  have n1: "0 \<le> uint hi" and n2: "0 \<le> uint lo" by simp_all
  have r: "0 \<le> X" "X < 65536" using b1 b2 n1 n2 by (simp_all add: X_def)
  have d: "push_bit 8 (ucast hi :: u16) AND ucast lo = 0"
    by (auto simp add: bit_eq_iff bit_simps dest: bit_imp_le_length)
  have "(push_bit 8 (ucast hi) OR ucast lo :: u16) = push_bit 8 (ucast hi) + ucast lo"
    using disjunctive_add_eq_or [OF d] by simp
  also have "\<dots> = word_of_int X"
    by (simp add: push_bit_eq_mult X_def)
  finally have e: "(push_bit 8 (ucast hi) OR ucast lo :: u16) = word_of_int X" .
  have "uint (word_of_int X :: u16) = X"
    using r by (simp add: uint_word_of_int)
  then show ?thesis unfolding e by (simp add: X_def)
qed

lemma fan_long: "sint (ucast (w :: u16) :: long) = uint w"
proof -
  have a: "0 \<le> uint w" by simp
  have b: "uint w < 65536" using uint_lt2p [of w] by simp
  have lo: "- (2 ^ 63) \<le> uint w" by (rule order_trans [OF _ a]) simp
  have hi: "uint w < 2 ^ 63" using b by simp
  have "signed_take_bit 63 (uint w) = uint w"
    using lo hi by (rule signed_take_bit_int_eq_self)
  then show ?thesis
    by (simp add: signed_ucast_eq)
qed

section \<open>The decoder on one report\<close>

lemma array_read_Some:
  "0 \<le> i \<Longrightarrow> i < int (length xs) \<Longrightarrow> array_read xs i = Some (xs ! nat i)"
  by (simp add: array_read_def)

lemma be16_to_cpup_Some:
  "0 \<le> off \<Longrightarrow> off + 1 < int (length data) \<Longrightarrow>
   be16_to_cpup data off =
     Some (push_bit 8 (ucast (data ! nat off)) OR ucast (data ! nat (off + 1)))"
  by (simp add: be16_to_cpup_def array_read_Some)

lemma krx62_raw_event_valid:
  assumes "report_id report = 4" and "16 \<le> sz" and "sz \<le> int (length data)"
  shows "krx62_raw_event ldata report data sz = Some (0, decoded ldata data)"
proof -
  have len: "16 \<le> int (length data)" using assms by simp
  have r1: "array_read data 1 = Some (data ! 1)" and r2: "array_read data 2 = Some (data ! 2)"
    using len by (simp_all add: array_read_def)
  have f0: "be16_to_cpup data 3 = Some (push_bit 8 (ucast (data ! 3)) OR ucast (data ! 4))"
    using len be16_to_cpup_Some [of 3 data] by (simp add: nat_add_distrib)
  have f1: "be16_to_cpup data 5 = Some (push_bit 8 (ucast (data ! 5)) OR ucast (data ! 6))"
    using len be16_to_cpup_Some [of 5 data] by (simp add: nat_add_distrib)
  show ?thesis
    using assms(1,2)
    by (simp add: krx62_raw_event_def STATUS_REPORT_ID_def STATUS_MIN_BYTES_def r1 r2 f0 f1
        decoded_def Let_def)
qed

lemma krx62_raw_event_skip:
  "report_id report \<noteq> 4 \<or> sz < 16 \<Longrightarrow> krx62_raw_event ldata report data sz = Some (0, ldata)"
  by (simp add: krx62_raw_event_def STATUS_REPORT_ID_def STATUS_MIN_BYTES_def)

lemma decoded_temp:
  "sint (temp_input (decoded ldata data)) = uint (data ! 1) * 1000 + uint (data ! 2) * 100"
  by (simp add: decoded_def temp_no_overflow)

lemma decoded_fan:
  assumes "length (fan_input ldata) = 2"
  shows "sint (fan_input (decoded ldata data) ! 0) = uint (data ! 3) * 256 + uint (data ! 4)"
    and "sint (fan_input (decoded ldata data) ! 1) = uint (data ! 5) * 256 + uint (data ! 6)"
    and "length (fan_input (decoded ldata data)) = 2"
  using assms by (simp_all add: decoded_def fan_long be16_value)

lemma value_bounds_decoded:
  assumes "length (fan_input ldata) = 2"
  shows "value_bounds (decoded ldata data)"
proof -
  let ?l = "decoded ldata data"
  have b: "uint (data ! i) < 256" "0 \<le> uint (data ! i)" for i
    by (simp_all add: u8_bound)
  have t: "0 \<le> sint (temp_input ?l)" "sint (temp_input ?l) \<le> 280500"
    unfolding decoded_temp using b [of 1] b [of 2] by simp_all
  have len: "length (fan_input ?l) = 2"
    by (rule decoded_fan(3) [OF assms])
  have f0: "0 \<le> sint (fan_input ?l ! 0)" "sint (fan_input ?l ! 0) \<le> 65535"
    unfolding decoded_fan(1) [OF assms] using b [of 3] b [of 4] by simp_all
  have f1: "0 \<le> sint (fan_input ?l ! 1)" "sint (fan_input ?l ! 1) \<le> 65535"
    unfolding decoded_fan(2) [OF assms] using b [of 5] b [of 6] by simp_all
  have s: "set (fan_input ?l) = {fan_input ?l ! 0, fan_input ?l ! 1}"
    using len by (cases "fan_input ?l"; cases "tl (fan_input ?l)") auto
  show ?thesis
    unfolding value_bounds_def s using t len f0 f1 by simp
qed

lemma krx62_raw_event_bounds:
  assumes "value_bounds ldata" and "sz \<le> int (length data)"
  shows "\<exists>ldata'. krx62_raw_event ldata report data sz = Some (0, ldata') \<and> value_bounds ldata'"
proof (cases "report_id report \<noteq> 4 \<or> sz < 16")
  case True
  then show ?thesis using assms(1) by (simp add: krx62_raw_event_skip)
next
  case False
  then have "krx62_raw_event ldata report data sz = Some (0, decoded ldata data)"
    using assms(2) by (simp add: krx62_raw_event_valid)
  moreover from assms(1) have "length (fan_input ldata) = 2"
    by (simp add: value_bounds_def)
  then have "value_bounds (decoded ldata data)"
    by (rule value_bounds_decoded)
  ultimately show ?thesis by simp
qed

section \<open>The readers\<close>

lemma krx62_read_temp:
  "krx62_read ldata hwmon_temp attr channel val = Some (0, temp_input ldata, ldata)"
  by (simp add: krx62_read_def)

lemma krx62_read_fan:
  "0 \<le> channel \<Longrightarrow> channel < int (length (fan_input ldata)) \<Longrightarrow>
   krx62_read ldata hwmon_fan attr channel val = Some (0, fan_input ldata ! nat channel, ldata)"
  by (simp add: krx62_read_def array_read_def)

lemma krx62_read_keeps_data:
  "krx62_read ldata type attr channel val = Some (r, v, l) \<Longrightarrow> l = ldata"
  by (cases type) (auto simp add: krx62_read_def split: bind_splits)

section \<open>Probing and sequences of reports\<close>

lemma krx62_probe_data:
  assumes "krx62_probe hdev env = (ret, Some ldata, calls)"
  shows "temp_input ldata = 0" and "fan_input ldata = [0, 0]"
  using assms
  by (auto simp add: krx62_probe_def kzalloc_device_data_def KRX62_RPM_INPUTS_def Let_def
      numeral_2_eq_2 split: if_splits sum.splits)

lemma krx62_probe_ok:
  "krx62_probe hdev probe_ok =
     (0, Some \<lparr>hid_dev = hdev, hwmon_dev = 1, temp_input = 0, fan_input = [0, 0]\<rparr>, [])"
  by (simp add: krx62_probe_def probe_ok_def kzalloc_device_data_def KRX62_RPM_INPUTS_def
      numeral_2_eq_2)

lemma value_bounds_probe:
  assumes "krx62_probe hdev env = (ret, Some ldata, calls)"
  shows "value_bounds ldata"
  using krx62_probe_data [OF assms] by (simp add: value_bounds_def)

lemma raw_events_ignored:
  "\<forall>(report, data, sz) \<in> set reports. report_id report \<noteq> 4 \<or> sz < 16 \<Longrightarrow>
   raw_events ldata reports = Some ldata"
  by (induction reports) (auto simp add: krx62_raw_event_skip)

lemma raw_events_bounds:
  "value_bounds ldata \<Longrightarrow> \<forall>(report, data, sz) \<in> set reports. sz \<le> int (length data) \<Longrightarrow>
   \<exists>ldata'. raw_events ldata reports = Some ldata' \<and> value_bounds ldata'"
proof (induction reports arbitrary: ldata)
  case Nil
  then show ?case by simp
next
  case (Cons r rs)
  obtain report data sz where r: "r = (report, data, sz)"
    by (cases r) auto
  from Cons.prems(2) have "sz \<le> int (length data)"
    by (simp add: r)
  from krx62_raw_event_bounds [OF Cons.prems(1) this]
  obtain l1 where l1: "krx62_raw_event ldata report data sz = Some (0, l1)" "value_bounds l1"
    by blast
  from Cons.prems(2) have "\<forall>(report, data, sz) \<in> set rs. sz \<le> int (length data)"
    by simp
  from Cons.IH [OF l1(2) this] show ?case
    by (simp add: r l1(1))
qed

section \<open>Reports that the decoder ignores\<close>

text \<open>
  C1. A report whose identifier is not 4, or whose length is below 16 (whatever the
  identifier), makes \<open>krx62_raw_event\<close> return 0 with the device data as it was; so
  whenever a call returns device data that differ from those it got, the identifier was 4
  and the length at least 16.
\<close>

theorem krx62_raw_event_ignores:
  "(report_id report \<noteq> 4 \<or> sz < 16 \<longrightarrow>
      krx62_raw_event ldata report data sz = Some (0, ldata)) \<and>
   (\<forall>ret ldata'. krx62_raw_event ldata report data sz = Some (ret, ldata') \<and> ldata' \<noteq> ldata
      \<longrightarrow> report_id report = 4 \<and> 16 \<le> sz)"
  by (auto simp add: krx62_raw_event_def STATUS_REPORT_ID_def STATUS_MIN_BYTES_def)

theorem krx62_raw_event_ignores_witness:
  "krx62_raw_event kzalloc_device_data \<lparr>report_id = 1\<rparr> (replicate 16 255) 16
     = Some (0, kzalloc_device_data) \<and>
   krx62_raw_event kzalloc_device_data \<lparr>report_id = 4\<rparr> (replicate 15 255) 15
     = Some (0, kzalloc_device_data)"
  using krx62_raw_event_ignores [of "\<lparr>report_id = 1\<rparr>" 16 kzalloc_device_data "replicate 16 255"]
    krx62_raw_event_ignores [of "\<lparr>report_id = 4\<rparr>" 15 kzalloc_device_data "replicate 15 255"]
  by simp

section \<open>The decoded temperature\<close>

text \<open>
  C2. For a report with identifier 4 and a length of at least 16 (the buffer holding at
  least that many bytes), \<open>krx62_raw_event\<close> returns 0 and stores the temperature
  \<open>data[1] * 1000 + data[2] * 100\<close>; for the bytes 04 1E 32 0C 80 03 20 00 followed by
  any eight bytes the stored temperature is 35000.
\<close>

theorem krx62_raw_event_temperature:
  "(report_id report = 4 \<and> 16 \<le> sz \<and> sz \<le> int (length data) \<longrightarrow>
      (\<exists>ldata'. krx62_raw_event ldata report data sz = Some (0, ldata') \<and>
         sint (temp_input ldata') = uint (data ! 1) * 1000 + uint (data ! 2) * 100)) \<and>
   (length rest = 8 \<longrightarrow>
      (\<exists>ldata'. krx62_raw_event ldata \<lparr>report_id = 4\<rparr>
           ([0x04, 0x1E, 0x32, 0x0C, 0x80, 0x03, 0x20, 0x00] @ rest) 16 = Some (0, ldata') \<and>
         sint (temp_input ldata') = 35000))"
proof (intro conjI impI)
  assume "report_id report = 4 \<and> 16 \<le> sz \<and> sz \<le> int (length data)"
  then have "krx62_raw_event ldata report data sz = Some (0, decoded ldata data)"
    by (simp add: krx62_raw_event_valid)
  then show "\<exists>ldata'. krx62_raw_event ldata report data sz = Some (0, ldata') \<and>
         sint (temp_input ldata') = uint (data ! 1) * 1000 + uint (data ! 2) * 100"
    by (simp add: decoded_temp)
next
  let ?d = "[0x04, 0x1E, 0x32, 0x0C, 0x80, 0x03, 0x20, 0x00] @ rest :: u8 list"
  assume "length rest = 8"
  then have "krx62_raw_event ldata \<lparr>report_id = 4\<rparr> ?d 16 = Some (0, decoded ldata ?d)"
    by (simp add: krx62_raw_event_valid)
  moreover have "sint (temp_input (decoded ldata ?d)) = 35000"
    by (simp add: decoded_temp)
  ultimately show "\<exists>ldata'. krx62_raw_event ldata \<lparr>report_id = 4\<rparr> ?d 16 = Some (0, ldata') \<and>
         sint (temp_input ldata') = 35000"
    by simp
qed

theorem krx62_raw_event_temperature_witness:
  "(4::nat) = 4 \<and> (16::int) \<le> 16 \<and>
   (\<exists>ldata'. krx62_raw_event kzalloc_device_data \<lparr>report_id = 4\<rparr>
        [0x04, 0x1E, 0x32, 0x0C, 0x80, 0x03, 0x20, 0x00, 0, 0, 0, 0, 0, 0, 0, 0] 16
          = Some (0, ldata') \<and>
      sint (temp_input ldata') = 35000)"
  using krx62_raw_event_temperature
    [of "\<lparr>report_id = 4\<rparr>" 16
        "[0x04, 0x1E, 0x32, 0x0C, 0x80, 0x03, 0x20, 0x00, 0, 0, 0, 0, 0, 0, 0, 0]"
        kzalloc_device_data "[0, 0, 0, 0, 0, 0, 0, 0]"]
  by simp

section \<open>The decoded fan speeds\<close>

text \<open>
  C3. For a report with identifier 4 and a length of at least 16 (the buffer holding at
  least that many bytes), \<open>krx62_raw_event\<close> stores in \<open>fan_input[0]\<close> the big-endian
  value of bytes 3 and 4, \<open>data[3] * 256 + data[4]\<close>, and in \<open>fan_input[1]\<close> that of
  bytes 5 and 6; for the bytes 04 1E 32 0C 80 03 20 00 followed by any eight bytes the
  stored speeds are 3200 and 800. \<open>fan_input\<close> has its two elements.
\<close>

theorem krx62_raw_event_fan_speeds:
  "(report_id report = 4 \<and> 16 \<le> sz \<and> sz \<le> int (length data) \<and>
    length (fan_input ldata) = 2 \<longrightarrow>
      (\<exists>ldata'. krx62_raw_event ldata report data sz = Some (0, ldata') \<and>
         sint (fan_input ldata' ! 0) = uint (data ! 3) * 256 + uint (data ! 4) \<and>
         sint (fan_input ldata' ! 1) = uint (data ! 5) * 256 + uint (data ! 6))) \<and>
   (length rest = 8 \<and> length (fan_input ldata) = 2 \<longrightarrow>
      (\<exists>ldata'. krx62_raw_event ldata \<lparr>report_id = 4\<rparr>
           ([0x04, 0x1E, 0x32, 0x0C, 0x80, 0x03, 0x20, 0x00] @ rest) 16 = Some (0, ldata') \<and>
         sint (fan_input ldata' ! 0) = 3200 \<and> sint (fan_input ldata' ! 1) = 800))"
proof (intro conjI impI)
  assume a: "report_id report = 4 \<and> 16 \<le> sz \<and> sz \<le> int (length data) \<and>
    length (fan_input ldata) = 2"
  then have "krx62_raw_event ldata report data sz = Some (0, decoded ldata data)"
    by (simp add: krx62_raw_event_valid)
  moreover from a have wf: "length (fan_input ldata) = 2"
    by simp
  ultimately show "\<exists>ldata'. krx62_raw_event ldata report data sz = Some (0, ldata') \<and>
         sint (fan_input ldata' ! 0) = uint (data ! 3) * 256 + uint (data ! 4) \<and>
         sint (fan_input ldata' ! 1) = uint (data ! 5) * 256 + uint (data ! 6)"
    using decoded_fan(1) [OF wf, of data] decoded_fan(2) [OF wf, of data] by blast
next
  let ?d = "[0x04, 0x1E, 0x32, 0x0C, 0x80, 0x03, 0x20, 0x00] @ rest :: u8 list"
  assume a: "length rest = 8 \<and> length (fan_input ldata) = 2"
  then have "krx62_raw_event ldata \<lparr>report_id = 4\<rparr> ?d 16 = Some (0, decoded ldata ?d)"
    by (simp add: krx62_raw_event_valid)
  moreover from a have wf: "length (fan_input ldata) = 2"
    by simp
  moreover have "sint (fan_input (decoded ldata ?d) ! 0) = 3200"
    unfolding decoded_fan(1) [OF wf] by simp
  moreover have "sint (fan_input (decoded ldata ?d) ! 1) = 800"
    unfolding decoded_fan(2) [OF wf] by simp
  ultimately show "\<exists>ldata'. krx62_raw_event ldata \<lparr>report_id = 4\<rparr> ?d 16 = Some (0, ldata') \<and>
         sint (fan_input ldata' ! 0) = 3200 \<and> sint (fan_input ldata' ! 1) = 800"
    by blast
qed

theorem krx62_raw_event_fan_speeds_witness:
  "length (fan_input kzalloc_device_data) = 2 \<and>
   (\<exists>ldata'. krx62_raw_event kzalloc_device_data \<lparr>report_id = 4\<rparr>
        [0x04, 0x1E, 0x32, 0x0C, 0x80, 0x03, 0x20, 0x00, 0, 0, 0, 0, 0, 0, 0, 0] 16
          = Some (0, ldata') \<and>
      sint (fan_input ldata' ! 0) = 3200 \<and> sint (fan_input ldata' ! 1) = 800)"
  using krx62_raw_event_fan_speeds
    [of "\<lparr>report_id = 4\<rparr>" 16
        "[0x04, 0x1E, 0x32, 0x0C, 0x80, 0x03, 0x20, 0x00, 0, 0, 0, 0, 0, 0, 0, 0]"
        kzalloc_device_data "[0, 0, 0, 0, 0, 0, 0, 0]"]
  by (simp add: kzalloc_device_data_def KRX62_RPM_INPUTS_def)

section \<open>Requests for a channel that is not in the table\<close>

text \<open>
  C4 as the specification states it: a read of a fan channel with an index outside 0 and 1
  fails with the invalid-argument error. It does not: \<open>krx62_read\<close> takes the \<open>hwmon_fan\<close>
  branch and reads \<open>fan_input[2]\<close>, outside the array, with no error return; and a
  temperature read with index 1, which the table does not declare either, returns 0 and
  the temperature.
\<close>

theorem krx62_read_index_counterexample:
  "krx62_read kzalloc_device_data hwmon_fan 0 2 0 = None \<and>
   krx62_read kzalloc_device_data hwmon_fan 0 2 0 \<noteq> Some (- 22, 0, kzalloc_device_data) \<and>
   krx62_read kzalloc_device_data hwmon_temp 0 1 7 = Some (0, 0, kzalloc_device_data)"
  by (simp add: krx62_read_def array_read_def kzalloc_device_data_def KRX62_RPM_INPUTS_def)

text \<open>
  C4, amended. For every request whose sensor type is neither temperature nor fan, with
  any attribute and index, \<open>krx62_read\<close> and \<open>krx62_read_string\<close> return \<open>-EINVAL\<close>
  (-22), leave the output cell as it was and \<open>krx62_read\<close> leaves the device data
  unchanged.
\<close>

theorem krx62_read_unsupported_type:
  assumes "type \<noteq> hwmon_temp" and "type \<noteq> hwmon_fan"
  shows "krx62_read ldata type attr channel val = Some (- 22, val, ldata) \<and>
     krx62_read_string type attr channel str = Some (- 22, str)"
  using assms by (cases type) (simp_all add: krx62_read_def krx62_read_string_def EINVAL_def)

theorem krx62_read_unsupported_type_witness:
  "hwmon_pwm \<noteq> hwmon_temp \<and> hwmon_pwm \<noteq> hwmon_fan \<and>
   krx62_read kzalloc_device_data hwmon_pwm 0 2 7 = Some (- 22, 7, kzalloc_device_data) \<and>
   krx62_read_string hwmon_pwm 0 2 ''none'' = Some (- 22, ''none'')"
proof -
  have h1: "hwmon_pwm \<noteq> hwmon_temp" and h2: "hwmon_pwm \<noteq> hwmon_fan"
    by simp_all
  show ?thesis
    using h1 h2 krx62_read_unsupported_type [OF h1 h2, of kzalloc_device_data 0 2 7 "''none''"]
    by simp
qed

section \<open>Decoding, then reading\<close>

text \<open>
  C5. After \<open>krx62_raw_event\<close> has decoded a report with identifier 4 and a length of at
  least 16, \<open>krx62_read\<close> returns 0 on each of the three channels of the table, with the
  value that the report encodes for that channel: \<open>data[1] * 1000 + data[2] * 100\<close> for
  the temperature, the big-endian value of bytes 3 and 4 for fan 0 and that of bytes 5
  and 6 for fan 1. The reads leave the device data as the decoder left them.
\<close>

theorem krx62_raw_event_then_read:
  "report_id report = 4 \<and> 16 \<le> sz \<and> sz \<le> int (length data) \<and>
   length (fan_input ldata) = 2 \<longrightarrow>
     (\<exists>ldata' t f0 f1.
        krx62_raw_event ldata report data sz = Some (0, ldata') \<and>
        krx62_read ldata' hwmon_temp attr 0 val = Some (0, t, ldata') \<and>
        sint t = uint (data ! 1) * 1000 + uint (data ! 2) * 100 \<and>
        krx62_read ldata' hwmon_fan attr 0 val = Some (0, f0, ldata') \<and>
        sint f0 = uint (data ! 3) * 256 + uint (data ! 4) \<and>
        krx62_read ldata' hwmon_fan attr 1 val = Some (0, f1, ldata') \<and>
        sint f1 = uint (data ! 5) * 256 + uint (data ! 6))"
proof
  assume a: "report_id report = 4 \<and> 16 \<le> sz \<and> sz \<le> int (length data) \<and>
   length (fan_input ldata) = 2"
  let ?l = "decoded ldata data"
  have ev: "krx62_raw_event ldata report data sz = Some (0, ?l)"
    using a by (simp add: krx62_raw_event_valid)
  from a have wf: "length (fan_input ldata) = 2"
    by simp
  have len: "length (fan_input ?l) = 2"
    by (rule decoded_fan(3) [OF wf])
  have rt: "krx62_read ?l hwmon_temp attr 0 val = Some (0, temp_input ?l, ?l)"
    by (rule krx62_read_temp)
  have r0: "krx62_read ?l hwmon_fan attr 0 val = Some (0, fan_input ?l ! 0, ?l)"
    using krx62_read_fan [of 0 ?l attr val] len by simp
  have r1: "krx62_read ?l hwmon_fan attr 1 val = Some (0, fan_input ?l ! 1, ?l)"
    using krx62_read_fan [of 1 ?l attr val] len by simp
  have vt: "sint (temp_input ?l) = uint (data ! 1) * 1000 + uint (data ! 2) * 100"
    by (rule decoded_temp)
  have v0: "sint (fan_input ?l ! 0) = uint (data ! 3) * 256 + uint (data ! 4)"
    and v1: "sint (fan_input ?l ! 1) = uint (data ! 5) * 256 + uint (data ! 6)"
    by (rule decoded_fan [OF wf])+
  show "\<exists>ldata' t f0 f1.
        krx62_raw_event ldata report data sz = Some (0, ldata') \<and>
        krx62_read ldata' hwmon_temp attr 0 val = Some (0, t, ldata') \<and>
        sint t = uint (data ! 1) * 1000 + uint (data ! 2) * 100 \<and>
        krx62_read ldata' hwmon_fan attr 0 val = Some (0, f0, ldata') \<and>
        sint f0 = uint (data ! 3) * 256 + uint (data ! 4) \<and>
        krx62_read ldata' hwmon_fan attr 1 val = Some (0, f1, ldata') \<and>
        sint f1 = uint (data ! 5) * 256 + uint (data ! 6)"
    using ev rt vt r0 v0 r1 v1 by blast
qed

theorem krx62_raw_event_then_read_witness:
  "\<exists>ldata' t f0 f1.
     krx62_raw_event kzalloc_device_data \<lparr>report_id = 4\<rparr>
       [0x04, 0x1E, 0x32, 0x0C, 0x80, 0x03, 0x20, 0x00, 0, 0, 0, 0, 0, 0, 0, 0] 16
         = Some (0, ldata') \<and>
     krx62_read ldata' hwmon_temp 0 0 0 = Some (0, t, ldata') \<and> sint t = 35000 \<and>
     krx62_read ldata' hwmon_fan 0 0 0 = Some (0, f0, ldata') \<and> sint f0 = 3200 \<and>
     krx62_read ldata' hwmon_fan 0 1 0 = Some (0, f1, ldata') \<and> sint f1 = 800"
  using krx62_raw_event_then_read
    [of "\<lparr>report_id = 4\<rparr>" 16
        "[0x04, 0x1E, 0x32, 0x0C, 0x80, 0x03, 0x20, 0x00, 0, 0, 0, 0, 0, 0, 0, 0]"
        kzalloc_device_data 0 0]
  by (simp add: kzalloc_device_data_def KRX62_RPM_INPUTS_def)

section \<open>The table and its labels\<close>

text \<open>
  C6. The table \<open>krx62_info\<close> is a constant of the driver. It enumerates to exactly three
  channels, temperature 0, fan 0 and fan 1 in this order, and \<open>krx62_read_string\<close> on
  them returns 0 with the labels "Coolant", "Fans" and "Pump".
\<close>

theorem krx62_info_channels_and_labels:
  "list_channels krx62_info = [(hwmon_temp, 0), (hwmon_fan, 0), (hwmon_fan, 1)] \<and>
   map (\<lambda>(t, i). krx62_read_string t attr i str) (list_channels krx62_info) =
     [Some (0, ''Coolant''), Some (0, ''Fans''), Some (0, ''Pump'')]"
proof -
  have c: "list_channels krx62_info = [(hwmon_temp, 0), (hwmon_fan, 0), (hwmon_fan, 1)]"
    by (simp add: list_channels_def krx62_info_def channels_of_def HWMON_CHANNEL_INFO_def
        upt_rec)
  show ?thesis unfolding c
    by (simp add: krx62_read_string_def KRX62_TEMP_LABEL_def krx62_fan_label_def array_read_def)
qed

section \<open>The snapshot before the first status report\<close>

text \<open>
  C7. The device data that \<open>krx62_probe\<close> allocates are zeroed: the temperature is 0 and
  both fan speeds are 0. They stay so through any sequence of reports none of which is a
  status report (identifier 4 with at least 16 bytes), and \<open>krx62_read\<close> on each of the
  three channels then returns 0 with the value 0, not an error.
\<close>

theorem krx62_probe_zero_snapshot:
  assumes "krx62_probe hdev env = (ret, Some ldata, calls)"
    and "\<forall>(report, data, sz) \<in> set reports. report_id report \<noteq> 4 \<or> sz < 16"
  shows "temp_input ldata = 0 \<and> fan_input ldata = [0, 0] \<and>
     raw_events ldata reports = Some ldata \<and>
     krx62_read ldata hwmon_temp attr 0 val = Some (0, 0, ldata) \<and>
     krx62_read ldata hwmon_fan attr 0 val = Some (0, 0, ldata) \<and>
     krx62_read ldata hwmon_fan attr 1 val = Some (0, 0, ldata)"
proof -
  have t: "temp_input ldata = 0" and f: "fan_input ldata = [0, 0]"
    using assms(1) by (rule krx62_probe_data)+
  have e: "raw_events ldata reports = Some ldata"
    using assms(2) by (rule raw_events_ignored)
  have "krx62_read ldata hwmon_temp attr 0 val = Some (0, 0, ldata)"
    using krx62_read_temp [of ldata attr 0 val] t by simp
  moreover have "krx62_read ldata hwmon_fan attr 0 val = Some (0, 0, ldata)"
    using krx62_read_fan [of 0 ldata attr val] f by simp
  moreover have "krx62_read ldata hwmon_fan attr 1 val = Some (0, 0, ldata)"
    using krx62_read_fan [of 1 ldata attr val] f by simp
  ultimately show ?thesis using t f e by blast
qed

theorem krx62_probe_zero_snapshot_witness:
  "krx62_probe 8 probe_ok =
     (0, Some \<lparr>hid_dev = 8, hwmon_dev = 1, temp_input = 0, fan_input = [0, 0]\<rparr>, []) \<and>
   raw_events \<lparr>hid_dev = 8, hwmon_dev = 1, temp_input = 0, fan_input = [0, 0]\<rparr>
     [(\<lparr>report_id = 1\<rparr>, replicate 16 255, 16), (\<lparr>report_id = 4\<rparr>, replicate 8 255, 8)]
       = Some \<lparr>hid_dev = 8, hwmon_dev = 1, temp_input = 0, fan_input = [0, 0]\<rparr> \<and>
   krx62_read \<lparr>hid_dev = 8, hwmon_dev = 1, temp_input = 0, fan_input = [0, 0]\<rparr> hwmon_fan 0 1 7
       = Some (0, 0, \<lparr>hid_dev = 8, hwmon_dev = 1, temp_input = 0, fan_input = [0, 0]\<rparr>)"
proof -
  let ?rs = "[(\<lparr>report_id = 1\<rparr>, replicate 16 (255 :: u8), 16 :: int),
              (\<lparr>report_id = 4\<rparr>, replicate 8 255, 8)]"
  have h: "\<forall>(report, data, sz) \<in> set ?rs. report_id report \<noteq> 4 \<or> sz < 16"
    by simp
  show ?thesis
    using krx62_probe_zero_snapshot [OF krx62_probe_ok [of 8] h, of 0 7] krx62_probe_ok [of 8]
    by simp
qed

section \<open>Visibility\<close>

text \<open>
  C8. For every sensor type, attribute and channel the visibility callback answers the
  mode 0444 (octal, 292), and that mode has none of the write bits 0222 (octal, 146).
\<close>

theorem krx62_is_visible_read_only:
  "krx62_is_visible data type attr channel = 292 \<and>
   krx62_is_visible data type attr channel AND 146 = 0"
  by (simp add: krx62_is_visible_def)

section \<open>Bounds of the stored values\<close>

text \<open>
  C10. Starting from the zeroed device data of \<open>krx62_probe\<close>, every sequence of calls of
  \<open>krx62_raw_event\<close> (each buffer holding the bytes that its length announces) runs to
  the end and leaves a temperature within 0 and 280500 and two fan speeds within 0 and
  65535, read as signed \<open>long\<close> values: no stored value has wrapped. \<open>krx62_read\<close> returns
  the device data as it got them, so reads keep the bounds too.
\<close>

theorem stored_values_bounded:
  assumes "krx62_probe hdev env = (ret, Some ldata0, calls)"
    and "\<forall>(report, data, sz) \<in> set reports. sz \<le> int (length data)"
  shows "\<exists>ldata. raw_events ldata0 reports = Some ldata \<and> value_bounds ldata \<and>
     (\<forall>type attr channel val r v l.
        krx62_read ldata type attr channel val = Some (r, v, l) \<longrightarrow> l = ldata)"
proof -
  from raw_events_bounds [OF value_bounds_probe [OF assms(1)] assms(2)]
  obtain ldata where l: "raw_events ldata0 reports = Some ldata" "value_bounds ldata"
    by blast
  have "l' = ldata" if "krx62_read ldata type attr channel val = Some (r, v, l')"
    for type attr channel val r v l'
    using that by (rule krx62_read_keeps_data)
  with l show ?thesis by blast
qed

theorem stored_values_bounded_witness:
  "\<exists>ldata.
     raw_events \<lparr>hid_dev = 8, hwmon_dev = 1, temp_input = 0, fan_input = [0, 0]\<rparr>
       [(\<lparr>report_id = 4\<rparr>, replicate 16 255, 16),
        (\<lparr>report_id = 4\<rparr>, replicate 3 255, 3),
        (\<lparr>report_id = 4\<rparr>,
           [0x04, 0x1E, 0x32, 0x0C, 0x80, 0x03, 0x20, 0x00, 0, 0, 0, 0, 0, 0, 0, 0], 16)]
       = Some ldata \<and>
     value_bounds ldata"
proof -
  let ?rs = "[(\<lparr>report_id = 4\<rparr>, replicate 16 (255 :: u8), 16 :: int),
        (\<lparr>report_id = 4\<rparr>, replicate 3 255, 3),
        (\<lparr>report_id = 4\<rparr>,
           [0x04, 0x1E, 0x32, 0x0C, 0x80, 0x03, 0x20, 0x00, 0, 0, 0, 0, 0, 0, 0, 0], 16)]"
  have h: "\<forall>(report, data, sz) \<in> set ?rs. sz \<le> int (length data)"
    by simp
  show ?thesis
    using stored_values_bounded [OF krx62_probe_ok [of 8] h] by blast
qed

end
